theory Spec2Isabelle
  imports Complex_Main
begin

section \<open>Data model\<close>

text \<open>
  The simulation of \<^verbatim>\<open>particleSimulation.cu\<close> works on single-precision floats. They
  are idealised here as the real numbers, which is the reading the specification gives
  them ("real-valued coordinates"): every comparison, branch and arithmetic expression
  of the source is kept, rounding, infinities and NaN are not modelled. The one place
  where this reading hides what the code does is the guard of \<^verbatim>\<open>normalize\<close>: over the
  reals a computed length of zero means the zero vector. For that question the
  functions of the force accumulation are modelled a second time, in single precision.

  \<^verbatim>\<open>float3\<close> is CUDA's vector of three floats with its constructor function
  \<^verbatim>\<open>make_float3\<close>; \<^verbatim>\<open>Particle\<close> is the struct of the source.
\<close>

datatype float3 = make_float3 (x: real) (y: real) (z: real)

record Particle =
  position :: float3
  velocity :: float3
  color :: int

section \<open>Vector helpers and the force law\<close>

text \<open>\<^verbatim>\<open>length\<close> of the source (lines 45-48).\<close>

definition length3 :: "float3 \<Rightarrow> real" where
  "length3 v = sqrt (x v * x v + y v * y v + z v * z v)"

text \<open>
  \<^verbatim>\<open>normalize\<close> of the source (lines 50-60): the three divisions happen only under the
  guard \<^verbatim>\<open>len > 0\<close>.
\<close>

definition normalize3 :: "float3 \<Rightarrow> float3" where
  "normalize3 v =
     (let len = length3 v in
      if len > 0 then make_float3 (x v / len) (y v / len) (z v / len) else v)"

text \<open>\<^verbatim>\<open>calculateForce\<close> (lines 62-76).\<close>

definition calculateForce :: "real \<Rightarrow> real \<Rightarrow> real \<Rightarrow> real" where
  "calculateForce distance attractionFactor beta =
     (if distance < beta then (distance / beta) - 1
      else if distance < 1 then
        attractionFactor * (1 - (2 * distance - 1 - beta) / (1 - beta))
      else 0)"

section \<open>The integrator kernel\<close>

text \<open>
  A read through the device pointer \<^verbatim>\<open>attractionMatrix\<close> at an \<^verbatim>\<open>int\<close> offset. A read
  outside the allocated block is undefined behaviour in the source; the model gives it
  no value.
\<close>

definition readf :: "real list \<Rightarrow> int \<Rightarrow> real" where
  "readf mem k = (if 0 \<le> k \<and> k < int (length mem) then mem ! nat k else undefined)"

text \<open>
  The wrap of one coordinate (lines 112-115 for \<^verbatim>\<open>x\<close>, 116-119 for \<^verbatim>\<open>y\<close>, 120-123 for
  \<^verbatim>\<open>z\<close>): two \<^verbatim>\<open>if\<close> statements in sequence, the second testing the value the first
  left.
\<close>

definition wrapAxis :: "real \<Rightarrow> real" where
  "wrapAxis c = (let c1 = (if c > 1 then - 1 else c) in if c1 < - 1 then 1 else c1)"

text \<open>
  The interaction of \<^verbatim>\<open>self = particles[idx]\<close> with \<^verbatim>\<open>other = particles[j]\<close> (lines
  90-102), adding to the accumulator \<^verbatim>\<open>force\<close>.
\<close>

definition interact ::
  "Particle list \<Rightarrow> real list \<Rightarrow> nat \<Rightarrow> real \<Rightarrow> nat \<Rightarrow> nat \<Rightarrow> float3 \<Rightarrow> float3" where
  "interact particles attractionMatrix numColors beta idx j force =
     (let self = particles ! idx;
          other = particles ! j;
          diff = make_float3 (x (position other) - x (position self))
                             (y (position other) - y (position self))
                             (z (position other) - z (position self));
          distance = length3 diff
      in if distance < 1 then
           let color_i = color self;
               color_j = color other;
               attractionFactor = readf attractionMatrix (color_i * int numColors + color_j);
               forceMagnitude = calculateForce distance attractionFactor beta
           in make_float3 (x force + forceMagnitude * x (normalize3 diff))
                          (y force + forceMagnitude * y (normalize3 diff))
                          (z force + forceMagnitude * z (normalize3 diff))
         else force)"

text \<open>One iteration of the loop over \<^verbatim>\<open>j\<close> (lines 88-103), with its test \<^verbatim>\<open>j != idx\<close>.\<close>

definition forceLoopBody ::
  "Particle list \<Rightarrow> real list \<Rightarrow> nat \<Rightarrow> real \<Rightarrow> nat \<Rightarrow> nat \<Rightarrow> float3 \<Rightarrow> float3" where
  "forceLoopBody particles attractionMatrix numColors beta idx j force =
     (if j \<noteq> idx then interact particles attractionMatrix numColors beta idx j force
      else force)"

text \<open>The loop \<^verbatim>\<open>for (int j = 0; j < numParticles; j++)\<close> from the zero force (lines 83-104).\<close>

definition forceLoop ::
  "Particle list \<Rightarrow> real list \<Rightarrow> nat \<Rightarrow> nat \<Rightarrow> real \<Rightarrow> nat \<Rightarrow> float3" where
  "forceLoop particles attractionMatrix numParticles numColors beta idx =
     fold (forceLoopBody particles attractionMatrix numColors beta idx)
       [0..<numParticles] (make_float3 0 0 0)"

text \<open>
  \<^verbatim>\<open>updateParticles\<close> (lines 78-125) as run by the thread whose global index
  \<^verbatim>\<open>blockIdx.x * blockDim.x + threadIdx.x\<close> is \<open>idx\<close>. \<^verbatim>\<open>self\<close> is a reference into the
  array the kernel was given: the thread reads every slot of that array and writes its
  results back into slot \<open>idx\<close> of the same array. The kernel has no second buffer.
  The color and the attraction matrix are only read.
\<close>

definition updateParticles ::
  "nat \<Rightarrow> Particle list \<Rightarrow> real list \<Rightarrow> nat \<Rightarrow> real \<Rightarrow> nat \<Rightarrow> real \<Rightarrow> real \<Rightarrow> Particle list" where
  "updateParticles idx particles attractionMatrix numParticles deltaTime numColors beta
       frictionFactor =
     (if idx < numParticles then
        let force = forceLoop particles attractionMatrix numParticles numColors beta idx;
            self = particles ! idx;
            v1 = make_float3 (x (velocity self) * frictionFactor)
                             (y (velocity self) * frictionFactor)
                             (z (velocity self) * frictionFactor);
            acceleration = force;
            v2 = make_float3 (x v1 + x acceleration * deltaTime)
                             (y v1 + y acceleration * deltaTime)
                             (z v1 + z acceleration * deltaTime);
            p1 = make_float3 (x (position self) + x v2 * deltaTime)
                             (y (position self) + y v2 * deltaTime)
                             (z (position self) + z v2 * deltaTime);
            p2 = make_float3 (wrapAxis (x p1)) (wrapAxis (y p1)) (wrapAxis (z p1))
        in particles[idx := self\<lparr>velocity := v2, position := p2\<rparr>]
      else particles)"

text \<open>
  The global thread indices of a launch \<^verbatim>\<open><<<gridDim, blockDim>>>\<close>, block by block.
\<close>

definition threadIds :: "nat \<Rightarrow> nat \<Rightarrow> nat list" where
  "threadIds gridDim blockDim =
     concat (map (\<lambda>blockIdx. map (\<lambda>threadIdx. blockIdx * blockDim + threadIdx) [0..<blockDim])
       [0..<gridDim])"

text \<open>
  A launch of the kernel under a sequential schedule: \<open>schedule\<close> lists the global thread
  indices in the order in which the threads run, each thread running to completion on
  the array the previous ones left. The forward order is \<open>threadIds gridDim blockDim\<close>.
  Finer interleavings of the hardware are outside the model.
\<close>

definition launch_updateParticles ::
  "nat list \<Rightarrow> Particle list \<Rightarrow> real list \<Rightarrow> nat \<Rightarrow> real \<Rightarrow> nat \<Rightarrow> real \<Rightarrow> real \<Rightarrow> Particle list" where
  "launch_updateParticles schedule particles attractionMatrix numParticles deltaTime numColors
       beta frictionFactor =
     fold (\<lambda>idx ps. updateParticles idx ps attractionMatrix numParticles deltaTime numColors
                       beta frictionFactor)
       schedule particles"

section \<open>Initialisation and the main loop\<close>

text \<open>
  \<^verbatim>\<open>initParticles\<close> (lines 19-31) as run by the thread with global index \<open>idx\<close>. cuRAND is
  an external library: \<^verbatim>\<open>curand_init(seed, idx, 0, &state)\<close> selects the stream of the
  pair (seed, idx), and \<open>uniform seed idx k\<close> stands for what the \<open>k\<close>-th call of
  \<^verbatim>\<open>curand_uniform\<close> on that state returns. The generator is a parameter of the model. The
  three calls are taken left to right. \<^verbatim>\<open>numParticles\<close> and \<^verbatim>\<open>numColors\<close> are the global
  constants of the source, parameters here.
\<close>

definition initParticles ::
  "(nat \<Rightarrow> nat \<Rightarrow> nat \<Rightarrow> real) \<Rightarrow> nat \<Rightarrow> nat \<Rightarrow> nat \<Rightarrow> Particle list \<Rightarrow> nat \<Rightarrow> Particle list" where
  "initParticles uniform numParticles numColors idx particles seed =
     (if idx < numParticles then
        particles[idx :=
          \<lparr>position = make_float3 (uniform seed idx 0 * 2 - 1) (uniform seed idx 1 * 2 - 1)
                         (uniform seed idx 2 * 2 - 1),
           velocity = make_float3 0 0 0,
           color = int (idx mod numColors)\<rparr>]
      else particles)"

definition launch_initParticles ::
  "nat list \<Rightarrow> (nat \<Rightarrow> nat \<Rightarrow> nat \<Rightarrow> real) \<Rightarrow> nat \<Rightarrow> nat \<Rightarrow> Particle list \<Rightarrow> nat \<Rightarrow> Particle list" where
  "launch_initParticles schedule uniform numParticles numColors particles seed =
     fold (\<lambda>idx ps. initParticles uniform numParticles numColors idx ps seed) schedule particles"

text \<open>
  The two nested loops of \<^verbatim>\<open>main\<close> that fill the host array \<^verbatim>\<open>attractionMatrix\<close> (lines
  234-242); \<open>mem\<close> is the content of the array before the loops.
\<close>

definition fillAttractionMatrix :: "nat \<Rightarrow> real list \<Rightarrow> real list" where
  "fillAttractionMatrix numColors mem =
     fold (\<lambda>i m. fold (\<lambda>j m'. m'[i * numColors + j := (if i = j then 1 else - 1)])
                    [0..<numColors] m)
       [0..<numColors] mem"

text \<open>The constants of the source (lines 9-10, 228-229, 271-273).\<close>

definition main_numParticles :: nat where "main_numParticles = 10000"
definition main_numColors :: nat where "main_numColors = 5"
definition main_threadsPerBlock :: nat where "main_threadsPerBlock = 256"
definition main_blocksPerGrid :: nat where
  "main_blocksPerGrid = (main_numParticles + main_threadsPerBlock - 1) div main_threadsPerBlock"
definition main_deltaTime :: real where "main_deltaTime = 4 / 10000"
definition main_beta :: real where "main_beta = 1 / 10"
definition main_frictionFactor :: real where "main_frictionFactor = 99 / 100"

text \<open>
  The device memory \<^verbatim>\<open>main\<close> works on: the particle array and the copy of the attraction
  matrix (\<^verbatim>\<open>cudaMemcpy\<close>, line 246). \<open>main_setup\<close> is lines 217-246, \<open>pmem\<close> and \<open>mmem\<close>
  being the contents of the two freshly allocated arrays; \<open>main_frame\<close> is the kernel
  launch of one iteration of the \<^verbatim>\<open>while\<close> loop (line 281), the rest of the iteration
  being rendering; \<open>main_loop\<close> runs one frame per schedule of its list.
\<close>

record Device =
  d_particles :: "Particle list"
  d_attractionMatrix :: "real list"

definition main_setup ::
  "(nat \<Rightarrow> nat \<Rightarrow> nat \<Rightarrow> real) \<Rightarrow> nat \<Rightarrow> Particle list \<Rightarrow> real list \<Rightarrow> Device" where
  "main_setup uniform seed pmem mmem =
     \<lparr>d_particles =
        launch_initParticles (threadIds main_blocksPerGrid main_threadsPerBlock) uniform
          main_numParticles main_numColors pmem seed,
      d_attractionMatrix = fillAttractionMatrix main_numColors mmem\<rparr>"

definition main_frame :: "nat list \<Rightarrow> Device \<Rightarrow> Device" where
  "main_frame schedule dev =
     dev\<lparr>d_particles :=
       launch_updateParticles schedule (d_particles dev) (d_attractionMatrix dev)
         main_numParticles main_deltaTime main_numColors main_beta main_frictionFactor\<rparr>"

definition main_loop :: "nat list list \<Rightarrow> Device \<Rightarrow> Device" where
  "main_loop schedules dev = fold main_frame schedules dev"

section \<open>Quantities of one kernel thread\<close>

text \<open>
  Names for two intermediate values of \<^verbatim>\<open>updateParticles\<close>, used to state what the kernel
  writes: \<open>newVelocity\<close> is \<^verbatim>\<open>self.velocity\<close> after lines 106-109, \<open>unwrappedPosition\<close> is
  \<^verbatim>\<open>self.position\<close> after line 110 and before the wrap, and \<open>wrapped\<close> is the wrap of lines
  112-123 on the three axes.
\<close>

definition newVelocity ::
  "nat \<Rightarrow> Particle list \<Rightarrow> real list \<Rightarrow> nat \<Rightarrow> real \<Rightarrow> nat \<Rightarrow> real \<Rightarrow> real \<Rightarrow> float3" where
  "newVelocity idx particles attractionMatrix numParticles deltaTime numColors beta
       frictionFactor =
     (let force = forceLoop particles attractionMatrix numParticles numColors beta idx;
          self = particles ! idx
      in make_float3 (x (velocity self) * frictionFactor + x force * deltaTime)
                     (y (velocity self) * frictionFactor + y force * deltaTime)
                     (z (velocity self) * frictionFactor + z force * deltaTime))"

definition unwrappedPosition ::
  "nat \<Rightarrow> Particle list \<Rightarrow> real list \<Rightarrow> nat \<Rightarrow> real \<Rightarrow> nat \<Rightarrow> real \<Rightarrow> real \<Rightarrow> float3" where
  "unwrappedPosition idx particles attractionMatrix numParticles deltaTime numColors beta
       frictionFactor =
     (let v = newVelocity idx particles attractionMatrix numParticles deltaTime numColors beta
                frictionFactor;
          self = particles ! idx
      in make_float3 (x (position self) + x v * deltaTime)
                     (y (position self) + y v * deltaTime)
                     (z (position self) + z v * deltaTime))"

definition wrapped :: "float3 \<Rightarrow> float3" where
  "wrapped p = make_float3 (wrapAxis (x p)) (wrapAxis (y p)) (wrapAxis (z p))"

section \<open>The particle written by the initialisation\<close>

text \<open>The struct value that \<^verbatim>\<open>initParticles\<close> stores into slot \<open>idx\<close> (lines 27-29).\<close>

definition initialParticle ::
  "(nat \<Rightarrow> nat \<Rightarrow> nat \<Rightarrow> real) \<Rightarrow> nat \<Rightarrow> nat \<Rightarrow> nat \<Rightarrow> Particle" where
  "initialParticle uniform numColors seed idx =
     \<lparr>position = make_float3 (uniform seed idx 0 * 2 - 1) (uniform seed idx 1 * 2 - 1)
                    (uniform seed idx 2 * 2 - 1),
      velocity = make_float3 0 0 0,
      color = int (idx mod numColors)\<rparr>"

section \<open>Single precision\<close>

text \<open>
  The values of IEEE 754 binary32, the \<^verbatim>\<open>float\<close> of the device: a finite value, the two
  infinities and NaN. The sign of zero is not kept: \<^verbatim>\<open>-0.0f\<close> and \<^verbatim>\<open>0.0f\<close> compare equal
  and are the same divisor.
\<close>

datatype f32 = Fin real | PInf | NInf | NaN

text \<open>
  Rounding to the nearest binary32 value, ties to the even significand. \<open>quantum a\<close> is
  the spacing of the binary32 values around the magnitude \<open>a\<close>: \<open>1 / 2 ^ 149\<close> below the
  smallest normal value \<open>1 / 2 ^ 126\<close> (gradual underflow, the default of the device
  compiler), and 24 significant bits in every binade above. A magnitude that rounds to
  \<open>2 ^ 128\<close> or more becomes an infinity.
\<close>

definition round_half_even :: "real \<Rightarrow> int" where
  "round_half_even r =
     (let n = \<lfloor>r\<rfloor>; f = r - of_int n
      in if f < 1 / 2 then n else if 1 / 2 < f then n + 1 else if even n then n else n + 1)"

definition quantum :: "real \<Rightarrow> real" where
  "quantum a = (if a < 1 / 2 ^ 126 then 1 / 2 ^ 149 else 2 powi (\<lfloor>log 2 a\<rfloor> - 23))"

definition round32 :: "real \<Rightarrow> f32" where
  "round32 r =
     (let a = \<bar>r\<bar>; q = quantum a; m = q * of_int (round_half_even (a / q))
      in if 2 ^ 128 \<le> m then (if 0 < r then PInf else NInf) else Fin (sgn r * m))"

text \<open>
  The operations the source uses, \<^verbatim>\<open>+\<close>, \<^verbatim>\<open>-\<close>, \<^verbatim>\<open>*\<close>, \<^verbatim>\<open>sqrtf\<close> and \<^verbatim>\<open><\<close>, with their IEEE 754
  results on infinities and NaN. Every operation rounds on its own, as the source
  writes it; the contraction of a multiplication and an addition into one rounding is
  not modelled. The test \<^verbatim>\<open>a > b\<close> of the source is \<open>flt b a\<close>.
\<close>

fun fneg :: "f32 \<Rightarrow> f32" where
  "fneg (Fin a) = Fin (- a)"
| "fneg PInf = NInf"
| "fneg NInf = PInf"
| "fneg NaN = NaN"

fun fadd :: "f32 \<Rightarrow> f32 \<Rightarrow> f32" where
  "fadd (Fin a) (Fin b) = round32 (a + b)"
| "fadd NaN _ = NaN"
| "fadd _ NaN = NaN"
| "fadd PInf NInf = NaN"
| "fadd NInf PInf = NaN"
| "fadd PInf _ = PInf"
| "fadd _ PInf = PInf"
| "fadd NInf _ = NInf"
| "fadd _ NInf = NInf"

definition fsub :: "f32 \<Rightarrow> f32 \<Rightarrow> f32" where
  "fsub a b = fadd a (fneg b)"

fun fmul :: "f32 \<Rightarrow> f32 \<Rightarrow> f32" where
  "fmul (Fin a) (Fin b) = round32 (a * b)"
| "fmul NaN _ = NaN"
| "fmul _ NaN = NaN"
| "fmul (Fin a) i = (if a = 0 then NaN else if 0 < a then i else fneg i)"
| "fmul i (Fin b) = (if b = 0 then NaN else if 0 < b then i else fneg i)"
| "fmul PInf i = i"
| "fmul NInf i = fneg i"

fun fsqrt :: "f32 \<Rightarrow> f32" where
  "fsqrt (Fin a) = (if a < 0 then NaN else round32 (sqrt a))"
| "fsqrt PInf = PInf"
| "fsqrt NInf = NaN"
| "fsqrt NaN = NaN"

fun flt :: "f32 \<Rightarrow> f32 \<Rightarrow> bool" where
  "flt (Fin a) (Fin b) = (a < b)"
| "flt NaN _ = False"
| "flt _ NaN = False"
| "flt _ NInf = False"
| "flt NInf _ = True"
| "flt PInf _ = False"
| "flt _ PInf = True"

text \<open>
  Division is the one operation that is checked: dividing by zero, whatever the
  dividend, is the fault \<open>DivisionByZero\<close> instead of the infinity or NaN the device
  would return. \<open>and_then\<close> passes a fault on.
\<close>

datatype fault = DivisionByZero

fun fdiv :: "f32 \<Rightarrow> f32 \<Rightarrow> fault + f32" where
  "fdiv a (Fin b) =
     (if b = 0 then Inl DivisionByZero
      else case a of
        Fin a' \<Rightarrow> Inr (round32 (a' / b))
      | NaN \<Rightarrow> Inr NaN
      | i \<Rightarrow> Inr (if 0 < b then i else fneg i))"
| "fdiv NaN _ = Inr NaN"
| "fdiv _ NaN = Inr NaN"
| "fdiv (Fin a) _ = Inr (Fin 0)"
| "fdiv _ _ = Inr NaN"

definition and_then :: "fault + 'a \<Rightarrow> ('a \<Rightarrow> fault + 'b) \<Rightarrow> fault + 'b" where
  "and_then r f = (case r of Inl e \<Rightarrow> Inl e | Inr v \<Rightarrow> f v)"

text \<open>
  \<^verbatim>\<open>float3\<close> and \<^verbatim>\<open>Particle\<close> with single-precision components, and the read through the
  pointer \<^verbatim>\<open>attractionMatrix\<close>.
\<close>

datatype float3_f32 = make_float3_f32 (x32: f32) (y32: f32) (z32: f32)

record Particle_f32 =
  position32 :: float3_f32
  velocity32 :: float3_f32
  color32 :: int

definition readf_f32 :: "f32 list \<Rightarrow> int \<Rightarrow> f32" where
  "readf_f32 mem k = (if 0 \<le> k \<and> k < int (length mem) then mem ! nat k else undefined)"

text \<open>
  \<^verbatim>\<open>length\<close> (lines 45-48) and \<^verbatim>\<open>normalize\<close> (lines 50-60) in single precision. The sum of
  line 47 associates to the left. The three divisions of \<^verbatim>\<open>normalize\<close> are evaluated
  only under the guard \<^verbatim>\<open>len > 0\<close>.
\<close>

definition length_f32 :: "float3_f32 \<Rightarrow> f32" where
  "length_f32 v =
     fsqrt (fadd (fadd (fmul (x32 v) (x32 v)) (fmul (y32 v) (y32 v))) (fmul (z32 v) (z32 v)))"

definition normalize_f32 :: "float3_f32 \<Rightarrow> fault + float3_f32" where
  "normalize_f32 v =
     (let len = length_f32 v in
      if flt (Fin 0) len then
        and_then (fdiv (x32 v) len) (\<lambda>qx.
        and_then (fdiv (y32 v) len) (\<lambda>qy.
        and_then (fdiv (z32 v) len) (\<lambda>qz.
        Inr (make_float3_f32 qx qy qz))))
      else Inr v)"

text \<open>
  \<^verbatim>\<open>calculateForce\<close> (lines 62-76) in single precision; the integer literals are
  converted to \<^verbatim>\<open>float\<close>.
\<close>

definition calculateForce_f32 :: "f32 \<Rightarrow> f32 \<Rightarrow> f32 \<Rightarrow> fault + f32" where
  "calculateForce_f32 distance attractionFactor beta =
     (if flt distance beta then
        and_then (fdiv distance beta) (\<lambda>q. Inr (fsub q (Fin 1)))
      else if flt distance (Fin 1) then
        and_then (fdiv (fsub (fsub (fmul (Fin 2) distance) (Fin 1)) beta) (fsub (Fin 1) beta))
          (\<lambda>q. Inr (fmul attractionFactor (fsub (Fin 1) q)))
      else Inr (Fin 0))"

text \<open>
  The force accumulation of \<^verbatim>\<open>updateParticles\<close> (lines 83-104) in single precision:
  \<open>interact_f32\<close> is lines 90-102 (line 101 calls \<^verbatim>\<open>normalize\<close> three times),
  \<open>forceLoopBody_f32\<close> adds the test \<^verbatim>\<open>j != idx\<close>, \<open>forceLoop_f32\<close> is the loop over \<^verbatim>\<open>j\<close>.
  A fault of a division ends the accumulation.
\<close>

definition interact_f32 ::
  "Particle_f32 list \<Rightarrow> f32 list \<Rightarrow> nat \<Rightarrow> f32 \<Rightarrow> nat \<Rightarrow> nat \<Rightarrow> float3_f32 \<Rightarrow> fault + float3_f32" where
  "interact_f32 particles attractionMatrix numColors beta idx j force =
     (let self = particles ! idx;
          other = particles ! j;
          diff = make_float3_f32 (fsub (x32 (position32 other)) (x32 (position32 self)))
                                 (fsub (y32 (position32 other)) (y32 (position32 self)))
                                 (fsub (z32 (position32 other)) (z32 (position32 self)));
          distance = length_f32 diff
      in if flt distance (Fin 1) then
           let color_i = color32 self;
               color_j = color32 other;
               attractionFactor =
                 readf_f32 attractionMatrix (color_i * int numColors + color_j)
           in and_then (calculateForce_f32 distance attractionFactor beta) (\<lambda>forceMagnitude.
              and_then (normalize_f32 diff) (\<lambda>nx.
              and_then (normalize_f32 diff) (\<lambda>ny.
              and_then (normalize_f32 diff) (\<lambda>nz.
              Inr (make_float3_f32 (fadd (x32 force) (fmul forceMagnitude (x32 nx)))
                                   (fadd (y32 force) (fmul forceMagnitude (y32 ny)))
                                   (fadd (z32 force) (fmul forceMagnitude (z32 nz))))))))
         else Inr force)"

definition forceLoopBody_f32 ::
  "Particle_f32 list \<Rightarrow> f32 list \<Rightarrow> nat \<Rightarrow> f32 \<Rightarrow> nat \<Rightarrow> nat \<Rightarrow> float3_f32 \<Rightarrow> fault + float3_f32" where
  "forceLoopBody_f32 particles attractionMatrix numColors beta idx j force =
     (if j \<noteq> idx then interact_f32 particles attractionMatrix numColors beta idx j force
      else Inr force)"

definition forceLoop_f32 ::
  "Particle_f32 list \<Rightarrow> f32 list \<Rightarrow> nat \<Rightarrow> nat \<Rightarrow> f32 \<Rightarrow> nat \<Rightarrow> fault + float3_f32" where
  "forceLoop_f32 particles attractionMatrix numParticles numColors beta idx =
     fold (\<lambda>j acc. and_then acc (forceLoopBody_f32 particles attractionMatrix numColors beta idx j))
       [0..<numParticles] (Inr (make_float3_f32 (Fin 0) (Fin 0) (Fin 0)))"

section \<open>Basic facts about the kernel\<close>

lemma length_updateParticles [simp]:
  "length (updateParticles idx ps am n dt nc b ff) = length ps"
  by (simp add: updateParticles_def Let_def)

lemma updateParticles_other:
  "i \<noteq> idx \<Longrightarrow> updateParticles idx ps am n dt nc b ff ! i = ps ! i"
  by (simp add: updateParticles_def Let_def)

lemma updateParticles_slot:
  assumes "idx < n" and "idx < length ps"
  shows "updateParticles idx ps am n dt nc b ff ! idx =
           (ps ! idx)\<lparr>velocity := newVelocity idx ps am n dt nc b ff,
                      position := wrapped (unwrappedPosition idx ps am n dt nc b ff)\<rparr>"
  using assms
  by (simp add: updateParticles_def Let_def newVelocity_def unwrappedPosition_def wrapped_def)



lemma wrapAxis_range: "- 1 \<le> wrapAxis c \<and> wrapAxis c \<le> 1"
  by (simp add: wrapAxis_def Let_def)

lemma wrapAxis_lt_iff: "wrapAxis c < 1 \<longleftrightarrow> \<not> (c = 1 \<or> c < - 1)"
  by (auto simp add: wrapAxis_def Let_def)

lemma wrapAxis_above: "1 < c \<Longrightarrow> wrapAxis c = - 1"
  by (simp add: wrapAxis_def)

lemma wrapAxis_below: "c < - 1 \<Longrightarrow> wrapAxis c = 1"
  by (simp add: wrapAxis_def)

lemma launch_snoc:
  "launch_updateParticles (schedule @ [t]) ps am n dt nc b ff =
     updateParticles t (launch_updateParticles schedule ps am n dt nc b ff) am n dt nc b ff"
  by (simp add: launch_updateParticles_def)

lemma length_launch [simp]:
  "length (launch_updateParticles schedule ps am n dt nc b ff) = length ps"
  by (induction schedule rule: rev_induct) (simp_all add: launch_snoc launch_updateParticles_def)

lemma launch_slot_wrapped:
  assumes "idx \<in> set schedule" and "idx < n" and "n \<le> length ps"
  shows "\<exists>q. position (launch_updateParticles schedule ps am n dt nc b ff ! idx) = wrapped q"
  using assms(1)
proof (induction schedule rule: rev_induct)
  case Nil
  then show ?case by simp
next
  case (snoc t ts)
  show ?case
  proof (cases "t = idx")
    case True
    have "idx < length (launch_updateParticles ts ps am n dt nc b ff)"
      using assms(2,3) by simp
    then show ?thesis
      using True assms(2) by (auto simp add: launch_snoc updateParticles_slot)
  next
    case False
    then have "idx \<in> set ts" using snoc.prems by simp
    then show ?thesis
      using False snoc.IH by (simp add: launch_snoc updateParticles_other)
  qed
qed

lemma launch_append:
  "launch_updateParticles (s1 @ s2) ps am n dt nc b ff =
     launch_updateParticles s2 (launch_updateParticles s1 ps am n dt nc b ff) am n dt nc b ff"
  by (simp add: launch_updateParticles_def)

lemma launch_Cons:
  "launch_updateParticles (t # schedule) ps am n dt nc b ff =
     launch_updateParticles schedule (updateParticles t ps am n dt nc b ff) am n dt nc b ff"
  by (simp add: launch_updateParticles_def)

lemma launch_Nil [simp]: "launch_updateParticles [] ps am n dt nc b ff = ps"
  by (simp add: launch_updateParticles_def)

lemma launch_untouched:
  "idx \<notin> set schedule \<Longrightarrow> launch_updateParticles schedule ps am n dt nc b ff ! idx = ps ! idx"
  by (induction schedule arbitrary: ps) (simp_all add: launch_Cons updateParticles_other)




lemma threadIds_upt: "threadIds g b = [0..<g * b]"
proof (induction g)
  case 0
  then show ?case by (simp add: threadIds_def)
next
  case (Suc g)
  have blk: "map (\<lambda>t. g * b + t) [0..<b] = [g * b..<g * b + b]"
    using map_add_upt [of "g * b" b] by (simp add: add.commute)
  have "threadIds (Suc g) b = threadIds g b @ map (\<lambda>t. g * b + t) [0..<b]"
    by (simp add: threadIds_def)
  also have "\<dots> = [0..<g * b] @ [g * b..<g * b + b]"
    using Suc.IH blk by simp
  also have "\<dots> = [0..<g * b + b]"
    by (rule upt_add_eq_append [symmetric]) simp
  also have "g * b + b = Suc g * b"
    by simp
  finally show ?case .
qed

lemma length3_axis: "length3 (make_float3 a 0 0) = \<bar>a\<bar>"
  by (simp add: length3_def)

section \<open>Basic facts about the initialisation and the matrix\<close>

lemma initParticles_eq:
  "initParticles uniform n nc idx ps seed =
     (if idx < n then ps[idx := initialParticle uniform nc seed idx] else ps)"
  by (simp add: initParticles_def initialParticle_def)

lemma length_launch_init [simp]:
  "length (launch_initParticles schedule uniform n nc ps seed) = length ps"
  unfolding launch_initParticles_def
  by (induction schedule arbitrary: ps) (simp_all add: initParticles_eq)

lemma launch_init_snoc:
  "launch_initParticles (schedule @ [t]) uniform n nc ps seed =
     initParticles uniform n nc t (launch_initParticles schedule uniform n nc ps seed) seed"
  by (simp add: launch_initParticles_def)

lemma launch_init_slot:
  assumes "idx \<in> set schedule" and "idx < n" and "n \<le> length ps"
  shows "launch_initParticles schedule uniform n nc ps seed ! idx =
           initialParticle uniform nc seed idx"
  using assms(1)
proof (induction schedule rule: rev_induct)
  case Nil
  then show ?case by simp
next
  case (snoc t ts)
  show ?case
  proof (cases "t = idx")
    case True
    then show ?thesis
      using assms(2,3) by (simp add: launch_init_snoc initParticles_eq)
  next
    case False
    then have "idx \<in> set ts" using snoc.prems by simp
    then show ?thesis
      using False snoc.IH by (simp add: launch_init_snoc initParticles_eq)
  qed
qed

lemma round_robin_count:
  "0 < nc \<Longrightarrow> c < nc \<Longrightarrow>
   length (filter (\<lambda>i. i mod nc = c) [0..<n]) = n div nc + (if c < n mod nc then 1 else 0)"
proof (induction n)
  case 0
  then show ?case by simp
next
  case (Suc n)
  show ?case
  proof (cases "Suc (n mod nc) = nc")
    case True
    then have "Suc n mod nc = 0" and "Suc n div nc = Suc (n div nc)"
      by (simp_all add: mod_Suc div_Suc)
    then show ?thesis
      using Suc True by auto
  next
    case False
    then have "Suc n mod nc = Suc (n mod nc)" and "Suc n div nc = n div nc"
      by (simp_all add: mod_Suc div_Suc)
    then show ?thesis
      using Suc False by auto
  qed
qed

lemma take_launch_init:
  assumes "n \<le> g * b" and "n \<le> length ps"
  shows "take n (launch_initParticles (threadIds g b) uniform n nc ps seed) =
           map (initialParticle uniform nc seed) [0..<n]"
proof (rule nth_equalityI)
  show "length (take n (launch_initParticles (threadIds g b) uniform n nc ps seed)) =
        length (map (initialParticle uniform nc seed) [0..<n])"
    using assms by simp
next
  fix i
  assume "i < length (take n (launch_initParticles (threadIds g b) uniform n nc ps seed))"
  then have "i < n" by simp
  then have "i \<in> set (threadIds g b)"
    using assms(1) by (simp add: threadIds_upt)
  then show "take n (launch_initParticles (threadIds g b) uniform n nc ps seed) ! i =
        map (initialParticle uniform nc seed) [0..<n] ! i"
    using \<open>i < n\<close> assms(2) by (simp add: launch_init_slot)
qed

text \<open>
  The grid of \<^verbatim>\<open>main\<close> (40 blocks of 256 threads) covers the 10000 particles, so after
  \<open>main_setup\<close> every slot holds the particle of its index.
\<close>

lemma main_grid_covers: "main_numParticles \<le> main_blocksPerGrid * main_threadsPerBlock"
  by (simp add: main_blocksPerGrid_def main_numParticles_def main_threadsPerBlock_def)

lemma main_setup_particle:
  assumes "idx < main_numParticles" and "main_numParticles \<le> length pmem"
  shows "d_particles (main_setup uniform seed pmem mmem) ! idx =
           initialParticle uniform main_numColors seed idx"
proof -
  have "idx \<in> set (threadIds main_blocksPerGrid main_threadsPerBlock)"
    using assms(1) main_grid_covers by (simp add: threadIds_upt)
  then show ?thesis
    using assms by (simp add: main_setup_def launch_init_slot)
qed

lemma fill_row_length:
  "length (fold (\<lambda>j m'. m'[i * n + j := v j]) [0..<k] m) = length m"
  by (induction k) simp_all

lemma fill_row_nth:
  "q < length m \<Longrightarrow>
   fold (\<lambda>j m'. m'[i * n + j := v j]) [0..<k] m ! q =
     (if i * n \<le> q \<and> q < i * n + k then v (q - i * n) else m ! q)"
proof (induction k)
  case 0
  then show ?case by auto
next
  case (Suc k)
  let ?row = "fold (\<lambda>j m'. m'[i * n + j := v j]) [0..<k] m"
  have step: "fold (\<lambda>j m'. m'[i * n + j := v j]) [0..<Suc k] m = ?row[i * n + k := v k]"
    by simp
  show ?case
  proof (cases "q = i * n + k")
    case True
    then show ?thesis
      using Suc.prems by (simp only: step) (simp add: fill_row_length)
  next
    case False
    then have "?row[i * n + k := v k] ! q = ?row ! q"
      by simp
    then show ?thesis
      using False Suc by (simp only: step) auto
  qed
qed

lemma fill_rows_length:
  "length (fold (\<lambda>i m. fold (\<lambda>j m'. m'[i * n + j := v i j]) [0..<n] m) [0..<r] mem) = length mem"
  by (induction r) (simp_all add: fill_row_length)

lemma fill_rows_nth:
  assumes "i < r" and "j < n" and "i * n + j < length mem"
  shows "fold (\<lambda>i m. fold (\<lambda>j m'. m'[i * n + j := v i j]) [0..<n] m) [0..<r] mem ! (i * n + j)
           = v i j"
  using assms(1)
proof (induction r)
  case 0
  then show ?case by simp
next
  case (Suc r)
  let ?rows = "fold (\<lambda>i m. fold (\<lambda>j m'. m'[i * n + j := v i j]) [0..<n] m) [0..<r] mem"
  have len: "i * n + j < length ?rows"
    using assms(3) by (simp add: fill_rows_length)
  show ?case
  proof (cases "i = r")
    case True
    then show ?thesis
      using len assms(2) by (simp add: fill_row_nth)
  next
    case False
    then have "i < r" using Suc.prems by simp
    then have "Suc i * n \<le> r * n"
      by (intro mult_le_mono1) simp
    then have "i * n + j < r * n"
      using assms(2) by simp
    then show ?thesis
      using len Suc.IH \<open>i < r\<close> by (simp add: fill_row_nth)
  qed
qed

lemma main_frame_matrix [simp]:
  "d_attractionMatrix (main_frame schedule dev) = d_attractionMatrix dev"
  by (simp add: main_frame_def)

lemma main_loop_matrix:
  "d_attractionMatrix (main_loop schedules dev) = d_attractionMatrix dev"
  unfolding main_loop_def by (induction schedules arbitrary: dev) simp_all

section \<open>Facts about single-precision rounding\<close>

lemma binade:
  assumes "0 < a"
  shows "2 powi \<lfloor>log 2 a\<rfloor> \<le> a \<and> a < 2 powi (\<lfloor>log 2 a\<rfloor> + 1)"
proof -
  have "2 powr (of_int \<lfloor>log 2 a\<rfloor>) \<le> a \<and> a < 2 powr (of_int \<lfloor>log 2 a\<rfloor> + 1)"
    using floor_log_eq_powr_iff [of a 2 "\<lfloor>log 2 a\<rfloor>"] assms by simp
  moreover have "(2::real) powr (of_int \<lfloor>log 2 a\<rfloor> + 1) = 2 powr (of_int (\<lfloor>log 2 a\<rfloor> + 1))"
    by simp
  ultimately show ?thesis
    by (simp only: powr_real_of_int' [of 2, simplified])
qed

lemma rhe_lower: "r - 1 / 2 \<le> of_int (round_half_even r)"
  unfolding round_half_even_def Let_def by (simp; linarith)

lemma rhe_upper: "of_int (round_half_even r) \<le> r + 1 / 2"
  unfolding round_half_even_def Let_def by (simp; linarith)

lemma rhe_ge_floor: "\<lfloor>r\<rfloor> \<le> round_half_even r"
  unfolding round_half_even_def Let_def by simp

lemma rhe_ge_int: "of_int n \<le> r \<Longrightarrow> n \<le> round_half_even r"
proof -
  assume "of_int n \<le> r"
  then have "n \<le> \<lfloor>r\<rfloor>" by (simp add: le_floor_iff)
  then show ?thesis using rhe_ge_floor [of r] by linarith
qed

lemma rhe_nonneg: "0 \<le> r \<Longrightarrow> 0 \<le> round_half_even r"
  using rhe_ge_int [of 0 r] by simp

lemma quantum_pos: "0 < quantum a"
  by (simp add: quantum_def)

lemma quantum_normal:
  assumes "1 / 2 ^ 126 \<le> a"
  shows "quantum a * 2 ^ 23 \<le> a" and "quantum a * 2 ^ 23 = 2 powi \<lfloor>log 2 a\<rfloor>"
proof -
  have "(0::real) < 1 / 2 ^ 126"
    by simp
  then have pos: "0 < a"
    using assms by (rule less_le_trans)
  have q: "quantum a = 2 powi (\<lfloor>log 2 a\<rfloor> - 23)"
    using assms by (simp add: quantum_def)
  show eq: "quantum a * 2 ^ 23 = 2 powi \<lfloor>log 2 a\<rfloor>"
    by (simp add: q power_int_diff)
  show "quantum a * 2 ^ 23 \<le> a"
    using binade [OF pos] eq by simp
qed

lemma round32_Fin:
  "round32 r = Fin d \<Longrightarrow>
     d = sgn r * (quantum \<bar>r\<bar> * of_int (round_half_even (\<bar>r\<bar> / quantum \<bar>r\<bar>)))"
  by (simp add: round32_def Let_def split: if_splits)

lemma round32_nonneg:
  assumes "round32 r = Fin d" and "0 \<le> r"
  shows "0 \<le> d"
proof -
  have "0 \<le> \<bar>r\<bar> / quantum \<bar>r\<bar>"
    using quantum_pos [of "\<bar>r\<bar>"] by simp
  then have "0 \<le> round_half_even (\<bar>r\<bar> / quantum \<bar>r\<bar>)"
    by (rule rhe_nonneg)
  then have "0 \<le> quantum \<bar>r\<bar> * of_int (round_half_even (\<bar>r\<bar> / quantum \<bar>r\<bar>))"
    using quantum_pos [of "\<bar>r\<bar>"] by simp
  then show ?thesis
    using round32_Fin [OF assms(1)] assms(2) by (simp add: sgn_real_def)
qed

lemma round32_not_NInf:
  assumes "0 \<le> r"
  shows "round32 r \<noteq> NInf"
proof (cases "r = 0")
  case True
  then show ?thesis
    by (simp add: round32_def quantum_def round_half_even_def Let_def)
next
  case False
  then have "0 < r" using assms by simp
  then show ?thesis
    by (simp add: round32_def Let_def)
qed

lemma round32_zero:
  assumes "round32 r = Fin 0"
  shows "\<bar>r\<bar> \<le> 1 / 2 ^ 150"
proof (cases "r = 0")
  case True
  then show ?thesis by simp
next
  case False
  let ?a = "\<bar>r\<bar>"
  let ?q = "quantum ?a"
  let ?k = "round_half_even (?a / ?q)"
  have "sgn r * (?q * of_int ?k) = 0"
    using round32_Fin [OF assms] by simp
  then have "?k = 0"
    using False quantum_pos [of ?a] by (simp add: sgn_real_def split: if_splits)
  then have "?a / ?q \<le> 1 / 2"
    using rhe_lower [of "?a / ?q"] by simp
  then have half: "?a \<le> ?q / 2"
    using quantum_pos [of ?a] by (simp add: field_simps)
  show ?thesis
  proof (cases "?a < 1 / 2 ^ 126")
    case True
    then have "?q = 1 / 2 ^ 149" by (simp add: quantum_def)
    then show ?thesis using half by simp
  next
    case False
    then have "?q * 2 ^ 23 \<le> ?a"
      by (intro quantum_normal(1)) simp
    then have "?q \<le> 0"
      using half by simp
    then show ?thesis
      using quantum_pos [of ?a] by simp
  qed
qed

lemma round32_below_one:
  assumes "round32 r = Fin d" and "0 \<le> r" and "d < 1"
  shows "d \<le> 1 - 1 / 2 ^ 24"
proof (cases "r = 0")
  case True
  then have "d = 0" using round32_Fin [OF assms(1)] by simp
  then show ?thesis by simp
next
  case False
  then have pos: "0 < r" using assms(2) by simp
  define q where "q = quantum r"
  define k where "k = round_half_even (r / q)"
  have d: "d = q * of_int k"
    using round32_Fin [OF assms(1)] pos by (simp add: q_def k_def)
  have qpos: "0 < q" unfolding q_def by (rule quantum_pos)
  consider "r < 1 / 2" | "1 / 2 \<le> r" "r < 1" | "1 \<le> r"
    by linarith
  then show ?thesis
  proof cases
    case 1
    have small: "q \<le> 1 / 2 ^ 24"
    proof (cases "r < 1 / 2 ^ 126")
      case True
      then show ?thesis by (simp add: q_def quantum_def)
    next
      case False
      then have "q * 2 ^ 23 \<le> r" unfolding q_def by (intro quantum_normal(1)) simp
      then show ?thesis using 1 by simp
    qed
    have "of_int k \<le> r / q + 1 / 2"
      unfolding k_def by (rule rhe_upper)
    then have "q * of_int k \<le> q * (r / q + 1 / 2)"
      using qpos by (simp only: mult_le_cancel_left_pos)
    moreover have "q * (r / q + 1 / 2) = r + q / 2"
      using qpos by (simp add: distrib_left)
    ultimately have "d \<le> r + q / 2"
      using d by simp
    then show ?thesis using 1 small by simp
  next
    case 2
    have "\<lfloor>log 2 r\<rfloor> = - 1"
      using floor_log_eq_powr_iff [of r 2 "- 1"] pos 2 by (simp add: powr_minus_divide)
    then have q: "q = 1 / 2 ^ 24"
      using 2 by (simp add: q_def quantum_def)
    have "real_of_int k < 2 ^ 24"
      using assms(3) d q by simp
    then have "k < 2 ^ 24"
      by simp
    then have "k \<le> 16777215"
      by simp
    then have "real_of_int k \<le> 16777215"
      by simp
    then show ?thesis
      using d q by simp
  next
    case 3
    have "(1::real) / 2 ^ 126 \<le> 1"
      by simp
    then have normal: "1 / 2 ^ 126 \<le> r"
      using 3 by (rule order_trans)
    have e: "0 \<le> \<lfloor>log 2 r\<rfloor>"
      using 3 by simp
    have "q * 2 ^ 23 \<le> r"
      unfolding q_def by (rule quantum_normal(1) [OF normal])
    then have "2 ^ 23 \<le> r / q"
      using qpos by (simp add: field_simps)
    then have "real_of_int (2 ^ 23) \<le> r / q"
      by simp
    then have "2 ^ 23 \<le> k"
      unfolding k_def by (rule rhe_ge_int)
    then have "(2::real) ^ 23 \<le> of_int k"
      by simp
    then have "q * 2 ^ 23 \<le> q * of_int k"
      using qpos by simp
    moreover have "(1::real) \<le> 2 powi \<lfloor>log 2 r\<rfloor>"
      using e by (simp add: power_int_nonneg_exp one_le_power)
    ultimately have "1 \<le> d"
      using quantum_normal(2) [OF normal] d by (simp add: q_def)
    then show ?thesis using assms(3) by simp
  qed
qed

lemma round32_0 [simp]: "round32 0 = Fin 0"
  by (simp add: round32_def quantum_def round_half_even_def Let_def)

lemma rhe_of_int [simp]: "round_half_even (of_int n) = n"
  by (simp add: round_half_even_def Let_def)

lemma round32_pow2:
  assumes "- 126 \<le> e" and "e \<le> 127"
  shows "round32 (2 powi e) = Fin (2 powi e)" and "round32 (- (2 powi e)) = Fin (- (2 powi e))"
proof -
  let ?a = "(2::real) powi e"
  have pos: "0 < ?a" by simp
  have "(2::real) powi (- 126) \<le> ?a"
    using assms(1) by (intro power_int_increasing) simp_all
  then have normal: "1 / 2 ^ 126 \<le> ?a"
    by (simp add: power_int_minus field_simps)
  have "\<lfloor>log 2 ?a\<rfloor> = e"
    using floor_log_eq_powr_iff [of ?a 2 e] by (simp add: powr_real_of_int' powr_add)
  then have q: "quantum ?a = 2 powi (e - 23)"
    using normal by (simp add: quantum_def)
  have "?a / quantum ?a = 2 powi 23"
    by (simp add: q power_int_diff)
  then have ratio: "?a / quantum ?a = of_int (2 ^ 23)"
    by simp
  have m: "quantum ?a * of_int (round_half_even (?a / quantum ?a)) = ?a"
    by (simp only: ratio rhe_of_int) (simp add: q power_int_diff)
  have "?a \<le> 2 powi 127"
    using assms(2) by (intro power_int_increasing) simp_all
  then have small: "\<not> 2 ^ 128 \<le> ?a"
    by simp
  show "round32 ?a = Fin ?a"
    using m small pos by (simp add: round32_def Let_def)
  show "round32 (- ?a) = Fin (- ?a)"
    using m small pos by (simp add: round32_def Let_def)
qed

lemma round32_values [simp]:
  "round32 1 = Fin 1" "round32 2 = Fin 2" "round32 (1 / 2) = Fin (1 / 2)"
  "round32 (1 / 4) = Fin (1 / 4)" "round32 (- 1) = Fin (- 1)"
  "round32 (- (1 / 2)) = Fin (- (1 / 2))"
  using round32_pow2 [of 0] round32_pow2 [of 1] round32_pow2 [of "- 1"] round32_pow2 [of "- 2"]
  by simp_all

lemma round32_underflow: "round32 (1 / 2 ^ 200) = Fin 0"
  by (simp add: round32_def quantum_def round_half_even_def Let_def)

lemma round32_overflow:
  assumes "2 ^ 128 \<le> r"
  shows "round32 r = PInf"
proof -
  have pos: "0 < r"
    using assms by (rule less_le_trans [rotated]) simp
  have "(1::real) / 2 ^ 126 \<le> 2 ^ 128"
    by simp
  then have normal: "1 / 2 ^ 126 \<le> r"
    using assms by (rule order_trans)
  define q where "q = quantum r"
  define k where "k = round_half_even (r / q)"
  have qpos: "0 < q" unfolding q_def by (rule quantum_pos)
  have "2 powr 128 \<le> r"
    using assms by simp
  then have "128 \<le> log 2 r"
    using pos by (simp add: le_log_iff)
  then have "128 \<le> \<lfloor>log 2 r\<rfloor>"
    by (simp add: le_floor_iff)
  then have "(2::real) powi 128 \<le> 2 powi \<lfloor>log 2 r\<rfloor>"
    by (intro power_int_increasing) simp_all
  then have big: "2 ^ 128 \<le> q * 2 ^ 23"
    using quantum_normal(2) [OF normal] by (simp add: q_def)
  have "q * 2 ^ 23 \<le> r"
    unfolding q_def by (rule quantum_normal(1) [OF normal])
  then have "real_of_int (2 ^ 23) \<le> r / q"
    using qpos by (simp add: field_simps)
  then have "2 ^ 23 \<le> k"
    unfolding k_def by (rule rhe_ge_int)
  then have "(2::real) ^ 23 \<le> of_int k"
    by simp
  then have "q * 2 ^ 23 \<le> q * of_int k"
    using qpos by simp
  then have "2 ^ 128 \<le> q * of_int k"
    using big by (rule order_trans [rotated])
  then show ?thesis
    using pos by (simp add: round32_def Let_def q_def k_def)
qed

text \<open>
  The rounding on values whose binary32 neighbours are known: \<^verbatim>\<open>0.1f\<close> (the \<^verbatim>\<open>beta\<close> of
  \<^verbatim>\<open>main\<close>) is \<open>13421773 / 2 ^ 27\<close>; the largest finite value is \<open>2 ^ 128 - 2 ^ 104\<close> and the
  midpoint above it rounds to infinity; the smallest positive value is \<open>1 / 2 ^ 149\<close>,
  half of it rounds to zero and one and a half times it rounds to twice it.
\<close>

lemma round32_tenth: "round32 (1 / 10) = Fin (13421773 / 2 ^ 27)"
proof -
  have "\<lfloor>log 2 (1 / 10 :: real)\<rfloor> = - 4"
    using floor_log_eq_powr_iff [of "1 / 10 :: real" 2 "- 4"] by (simp add: powr_minus_divide)
  then have q: "quantum (1 / 10) = 1 / 2 ^ 27"
    by (simp add: quantum_def)
  show ?thesis
    by (simp add: round32_def q round_half_even_def Let_def)
qed

lemma round32_largest: "round32 (2 ^ 128 - 2 ^ 104) = Fin (2 ^ 128 - 2 ^ 104)"
proof -
  have "\<lfloor>log 2 (2 ^ 128 - 2 ^ 104 :: real)\<rfloor> = 127"
    using floor_log_eq_powr_iff [of "2 ^ 128 - 2 ^ 104 :: real" 2 127] by simp
  then have q: "quantum (2 ^ 128 - 2 ^ 104) = 2 ^ 104"
    by (simp add: quantum_def)
  show ?thesis
    using q by (simp add: round32_def round_half_even_def Let_def)
qed

lemma round32_largest_tie: "round32 (2 ^ 128 - 2 ^ 103) = PInf"
proof -
  have "\<lfloor>log 2 (2 ^ 128 - 2 ^ 103 :: real)\<rfloor> = 127"
    using floor_log_eq_powr_iff [of "2 ^ 128 - 2 ^ 103 :: real" 2 127] by simp
  then have q: "quantum (2 ^ 128 - 2 ^ 103) = 2 ^ 104"
    by (simp add: quantum_def)
  show ?thesis
    using q by (simp add: round32_def round_half_even_def Let_def)
qed

lemma round32_smallest:
  "round32 (1 / 2 ^ 149) = Fin (1 / 2 ^ 149)" "round32 (1 / 2 ^ 150) = Fin 0"
  "round32 (3 / 2 ^ 150) = Fin (2 / 2 ^ 149)"
  by (simp_all add: round32_def quantum_def round_half_even_def Let_def)

section \<open>Facts about the single-precision force accumulation\<close>

lemma fdiv_ok: "d \<noteq> Fin 0 \<Longrightarrow> \<exists>q. fdiv a d = Inr q"
  by (cases a; cases d) simp_all

lemma flt_zero_cases: "flt (Fin 0) len \<Longrightarrow> len \<noteq> Fin 0"
  by (cases len) simp_all

lemma fsqrt_cases:
  "fsqrt s = NaN \<or> fsqrt s = PInf
   \<or> (\<exists>d. fsqrt s = Fin d \<and> 0 \<le> d \<and> (d < 1 \<longrightarrow> d \<le> 1 - 1 / 2 ^ 24))"
proof (cases s)
  case (Fin a)
  show ?thesis
  proof (cases "a < 0")
    case True
    then show ?thesis using Fin by simp
  next
    case False
    then have nn: "0 \<le> sqrt a" by simp
    show ?thesis
    proof (cases "round32 (sqrt a)")
      case (Fin d)
      then show ?thesis
        using \<open>s = Fin a\<close> False round32_nonneg [OF Fin nn] round32_below_one [OF Fin nn]
        by simp
    next
      case PInf
      then show ?thesis using \<open>s = Fin a\<close> False by simp
    next
      case NInf
      then show ?thesis using round32_not_NInf [OF nn] by simp
    next
      case NaN
      then show ?thesis using \<open>s = Fin a\<close> False by simp
    qed
  qed
qed simp_all

lemma normalize_f32_ok: "\<exists>n. normalize_f32 v = Inr n"
proof (cases "flt (Fin 0) (length_f32 v)")
  case True
  then have nz: "length_f32 v \<noteq> Fin 0" by (rule flt_zero_cases)
  obtain qx qy qz where "fdiv (x32 v) (length_f32 v) = Inr qx"
    "fdiv (y32 v) (length_f32 v) = Inr qy" "fdiv (z32 v) (length_f32 v) = Inr qz"
    using fdiv_ok [OF nz] by meson
  then show ?thesis
    using True by (simp add: normalize_f32_def and_then_def Let_def)
next
  case False
  then show ?thesis by (simp add: normalize_f32_def Let_def)
qed

lemma one_minus_beta:
  assumes "b \<le> d" and "d \<le> 1 - 1 / 2 ^ 24"
  shows "fsub (Fin 1) (Fin b) \<noteq> Fin 0"
proof
  assume "fsub (Fin 1) (Fin b) = Fin 0"
  then have "round32 (1 - b) = Fin 0"
    by (simp add: fsub_def)
  then have "\<bar>1 - b\<bar> \<le> 1 / 2 ^ 150"
    by (rule round32_zero)
  moreover have "(1::real) / 2 ^ 150 < 1 / 2 ^ 24"
    by simp
  ultimately show False
    using assms by linarith
qed

lemma calculateForce_f32_ok:
  assumes "0 \<le> d" and "d < 1" and "d \<le> 1 - 1 / 2 ^ 24"
  shows "\<exists>m. calculateForce_f32 (Fin d) a beta = Inr m"
proof (cases "flt (Fin d) beta")
  case True
  then have "beta \<noteq> Fin 0"
    using assms(1) by (cases beta) auto
  then obtain q where "fdiv (Fin d) beta = Inr q"
    using fdiv_ok by blast
  then show ?thesis
    using True by (simp add: calculateForce_f32_def and_then_def)
next
  case False
  have "fsub (Fin 1) beta \<noteq> Fin 0"
  proof (cases beta)
    case (Fin b)
    then have "b \<le> d" using False by simp
    then show ?thesis
      using one_minus_beta [OF _ assms(3)] Fin by simp
  qed (simp_all add: fsub_def)
  then obtain q where
    "fdiv (fsub (fsub (fmul (Fin 2) (Fin d)) (Fin 1)) beta) (fsub (Fin 1) beta) = Inr q"
    using fdiv_ok by blast
  then show ?thesis
    using False assms(2) by (simp add: calculateForce_f32_def and_then_def)
qed

lemma interact_f32_ok: "\<exists>f. interact_f32 ps am nc beta idx j force = Inr f"
proof -
  define diff where "diff =
    make_float3_f32 (fsub (x32 (position32 (ps ! j))) (x32 (position32 (ps ! idx))))
                    (fsub (y32 (position32 (ps ! j))) (y32 (position32 (ps ! idx))))
                    (fsub (z32 (position32 (ps ! j))) (z32 (position32 (ps ! idx))))"
  show ?thesis
  proof (cases "flt (length_f32 diff) (Fin 1)")
    case True
    then obtain d where d: "length_f32 diff = Fin d" "0 \<le> d" "d < 1" "d \<le> 1 - 1 / 2 ^ 24"
      using fsqrt_cases [of "fadd (fadd (fmul (x32 diff) (x32 diff)) (fmul (y32 diff) (y32 diff)))
                               (fmul (z32 diff) (z32 diff))"]
      by (auto simp add: length_f32_def)
    obtain m where "calculateForce_f32 (Fin d)
        (readf_f32 am (color32 (ps ! idx) * int nc + color32 (ps ! j))) beta = Inr m"
      using calculateForce_f32_ok [OF d(2,3,4)] by blast
    moreover obtain n where "normalize_f32 diff = Inr n"
      using normalize_f32_ok by blast
    ultimately show ?thesis
      using True d(1) by (simp add: interact_f32_def Let_def and_then_def diff_def [symmetric])
  next
    case False
    then show ?thesis
      by (simp add: interact_f32_def Let_def diff_def [symmetric])
  qed
qed

lemma forceLoopBody_f32_ok: "\<exists>f. forceLoopBody_f32 ps am nc beta idx j force = Inr f"
  using interact_f32_ok [of ps am nc beta idx j force]
  by (cases "j = idx") (simp_all add: forceLoopBody_f32_def)

lemma forceLoop_f32_ok: "\<exists>f. forceLoop_f32 ps am n nc beta idx = Inr f"
proof -
  have "\<exists>f. fold (\<lambda>j acc. and_then acc (forceLoopBody_f32 ps am nc beta idx j)) js (Inr f0) = Inr f"
    for js f0
  proof (induction js arbitrary: f0)
    case Nil
    then show ?case by simp
  next
    case (Cons j js)
    obtain f1 where "forceLoopBody_f32 ps am nc beta idx j f0 = Inr f1"
      using forceLoopBody_f32_ok by blast
    then show ?case
      using Cons.IH [of f1] by (simp add: and_then_def)
  qed
  then show ?thesis
    by (simp add: forceLoop_f32_def)
qed

text \<open>
  When the squares overflow, the computed length is infinite and every finite component
  divided by it is zero.
\<close>

lemma normalize_f32_overflow:
  "length_f32 (make_float3_f32 (Fin (2 ^ 100)) (Fin 0) (Fin 0)) = PInf
   \<and> normalize_f32 (make_float3_f32 (Fin (2 ^ 100)) (Fin 0) (Fin 0)) =
       Inr (make_float3_f32 (Fin 0) (Fin 0) (Fin 0))"
proof -
  have "round32 (2 ^ 100 * 2 ^ 100) = PInf"
    by (rule round32_overflow) simp
  then show ?thesis
    by (simp add: length_f32_def normalize_f32_def and_then_def Let_def)
qed

section \<open>Limits of the force law\<close>

lemma force_below_beta:
  assumes "0 < beta"
  shows "((\<lambda>d. calculateForce d a beta) \<longlongrightarrow> 0) (at_left beta)"
proof -
  have "((\<lambda>d. d / beta - 1) \<longlongrightarrow> beta / beta - 1) (at_left beta)"
    by (intro tendsto_intros) (use assms in simp_all)
  then have lim: "((\<lambda>d. d / beta - 1) \<longlongrightarrow> 0) (at_left beta)"
    using assms by simp
  have "eventually (\<lambda>d. d / beta - 1 = calculateForce d a beta) (at_left beta)"
    unfolding eventually_at_filter by (simp add: calculateForce_def)
  then show ?thesis
    using lim by (rule Lim_transform_eventually [rotated])
qed

lemma force_above_beta:
  assumes "beta < 1"
  shows "((\<lambda>d. calculateForce d a beta) \<longlongrightarrow> 2 * a) (at_right beta)"
proof -
  have "((\<lambda>d. a * (1 - (2 * d - 1 - beta) / (1 - beta))) \<longlongrightarrow>
           a * (1 - (2 * beta - 1 - beta) / (1 - beta))) (at_right beta)"
    by (intro tendsto_intros) (use assms in simp_all)
  moreover have "(2 * beta - 1 - beta) / (1 - beta) = - 1"
    using assms by (simp add: field_simps)
  ultimately have lim: "((\<lambda>d. a * (1 - (2 * d - 1 - beta) / (1 - beta))) \<longlongrightarrow> 2 * a)
      (at_right beta)"
    by (simp add: mult.commute)
  have "eventually (\<lambda>d. d < 1) (at_right beta)"
    using assms by (intro order_tendstoD(2) [OF tendsto_ident_at])
  moreover have "eventually (\<lambda>d. beta < d) (at_right beta)"
    by (simp add: eventually_at_filter)
  ultimately have "eventually (\<lambda>d. a * (1 - (2 * d - 1 - beta) / (1 - beta)) =
      calculateForce d a beta) (at_right beta)"
    by eventually_elim (simp add: calculateForce_def)
  then show ?thesis
    using lim by (rule Lim_transform_eventually [rotated])
qed

lemma force_below_one:
  assumes "beta < 1"
  shows "((\<lambda>d. calculateForce d a beta) \<longlongrightarrow> 0) (at_left 1)"
proof -
  have "((\<lambda>d. a * (1 - (2 * d - 1 - beta) / (1 - beta))) \<longlongrightarrow>
           a * (1 - (2 * 1 - 1 - beta) / (1 - beta))) (at_left 1)"
    by (intro tendsto_intros) (use assms in simp_all)
  moreover have "(2 * 1 - 1 - beta) / (1 - beta) = 1"
    using assms by simp
  ultimately have lim: "((\<lambda>d. a * (1 - (2 * d - 1 - beta) / (1 - beta))) \<longlongrightarrow> 0)
      (at_left 1)"
    by simp
  have "eventually (\<lambda>d. beta < d) (at_left 1)"
    using assms by (intro order_tendstoD(1) [OF tendsto_ident_at])
  moreover have "eventually (\<lambda>d. d < (1::real)) (at_left 1)"
    by (simp add: eventually_at_filter)
  ultimately have "eventually (\<lambda>d. a * (1 - (2 * d - 1 - beta) / (1 - beta)) =
      calculateForce d a beta) (at_left 1)"
    by eventually_elim (simp add: calculateForce_def)
  then show ?thesis
    using lim by (rule Lim_transform_eventually [rotated])
qed

lemma force_beyond_one: "beta \<le> 1 \<Longrightarrow> 1 \<le> d \<Longrightarrow> calculateForce d a beta = 0"
  by (simp add: calculateForce_def)

section \<open>The force law\<close>

text \<open>
  C2. For every distance \<open>\<ge> 0\<close>, attraction in \<open>[-1, 1]\<close> and beta in \<open>(0, 1)\<close> the force
  law is the piecewise function: \<open>distance / beta - 1\<close> when \<open>distance < beta\<close>;
  \<open>attraction * (1 - (2 * distance - 1 - beta) / (1 - beta))\<close> when
  \<open>beta \<le> distance < 1\<close>; and \<open>0\<close> when \<open>distance \<ge> 1\<close>. Both branch tests are strict.
\<close>

theorem calculateForce_piecewise:
  assumes "0 \<le> distance" and "- 1 \<le> attraction" and "attraction \<le> 1"
    and "0 < beta" and "beta < 1"
  shows "(distance < beta \<longrightarrow>
            calculateForce distance attraction beta = distance / beta - 1)
       \<and> (beta \<le> distance \<and> distance < 1 \<longrightarrow>
            calculateForce distance attraction beta =
              attraction * (1 - (2 * distance - 1 - beta) / (1 - beta)))
       \<and> (1 \<le> distance \<longrightarrow> calculateForce distance attraction beta = 0)"
  using assms by (simp add: calculateForce_def)

theorem calculateForce_piecewise_witness:
  "calculateForce (1/4) 1 (1/2) = - (1/2)
   \<and> calculateForce (3/4) 1 (1/2) = 1
   \<and> calculateForce 2 1 (1/2) = 0"
  using calculateForce_piecewise [of "1/4" 1 "1/2"]
    calculateForce_piecewise [of "3/4" 1 "1/2"]
    calculateForce_piecewise [of 2 1 "1/2"]
  by simp

text \<open>
  C3 as stated fails in its second part: at attraction \<open>1\<close> and beta \<open>1/2\<close> the force does
  not tend to the attraction \<open>1\<close> as the distance approaches beta from above.
\<close>

theorem force_mid_limit_counterexample:
  "\<not> ((\<lambda>d. calculateForce d 1 (1 / 2)) \<longlongrightarrow> 1) (at_right (1 / 2))"
proof
  assume "((\<lambda>d. calculateForce d 1 (1 / 2)) \<longlongrightarrow> 1) (at_right (1 / 2))"
  moreover have "((\<lambda>d. calculateForce d 1 (1 / 2)) \<longlongrightarrow> 2 * 1) (at_right (1 / 2))"
    by (rule force_above_beta) simp
  ultimately have "(1::real) = 2 * 1"
    by (intro tendsto_unique [of "at_right (1 / 2)"]) simp_all
  then show False by simp
qed

text \<open>
  C3, amended. For every attraction in \<open>[-1, 1]\<close> and beta in \<open>(0, 1)\<close>: the force tends
  to \<open>0\<close> as the distance approaches beta from below (the repulsive branch), to
  \<open>2 * attraction\<close> as the distance approaches beta from above (the mid branch), to \<open>0\<close> as
  the distance approaches \<open>1\<close> from below, and it is \<open>0\<close> for every distance \<open>\<ge> 1\<close>.
\<close>

theorem force_limits:
  assumes "- 1 \<le> attraction" and "attraction \<le> 1" and "0 < beta" and "beta < 1"
  shows "((\<lambda>d. calculateForce d attraction beta) \<longlongrightarrow> 0) (at_left beta)
       \<and> ((\<lambda>d. calculateForce d attraction beta) \<longlongrightarrow> 2 * attraction) (at_right beta)
       \<and> ((\<lambda>d. calculateForce d attraction beta) \<longlongrightarrow> 0) (at_left 1)
       \<and> (\<forall>d \<ge> 1. calculateForce d attraction beta = 0)"
  using assms
  by (simp add: force_below_beta force_above_beta force_below_one force_beyond_one)

theorem force_limits_witness:
  "- 1 \<le> (1::real) \<and> (1::real) \<le> 1 \<and> (0::real) < 1 / 2 \<and> (1 / 2 :: real) < 1
   \<and> ((\<lambda>d. calculateForce d 1 (1 / 2)) \<longlongrightarrow> 0) (at_left (1 / 2))
   \<and> ((\<lambda>d. calculateForce d 1 (1 / 2)) \<longlongrightarrow> 2) (at_right (1 / 2))
   \<and> ((\<lambda>d. calculateForce d 1 (1 / 2)) \<longlongrightarrow> 0) (at_left 1)
   \<and> calculateForce 1 1 (1 / 2) = 0 \<and> calculateForce (1 / 2) 1 (1 / 2) = 2"
  using force_limits [of 1 "1 / 2"]
  by (simp add: calculateForce_def)

section \<open>The wrap\<close>

text \<open>
  C10. After the wrap of a tick every position coordinate of every particle lies in the
  closed interval \<open>[-1, 1]\<close>: this holds for the slot of every thread that ran in the
  launch, whatever the schedule. A coordinate equal to \<open>1\<close> or to \<open>-1\<close> is left as it
  is, the two tests of the wrap being strict.
\<close>

theorem wrap_closed_interval:
  assumes "idx \<in> set schedule" and "idx < numParticles" and "numParticles \<le> length particles"
  shows "(let p = position (launch_updateParticles schedule particles attractionMatrix
                      numParticles deltaTime numColors beta frictionFactor ! idx)
          in - 1 \<le> x p \<and> x p \<le> 1 \<and> - 1 \<le> y p \<and> y p \<le> 1 \<and> - 1 \<le> z p \<and> z p \<le> 1)
         \<and> wrapAxis 1 = 1 \<and> wrapAxis (- 1) = - 1"
proof -
  obtain q where "position (launch_updateParticles schedule particles attractionMatrix
                      numParticles deltaTime numColors beta frictionFactor ! idx) = wrapped q"
    using launch_slot_wrapped [OF assms] by blast
  moreover have "wrapAxis 1 = 1 \<and> wrapAxis (- 1) = - 1"
    by (simp add: wrapAxis_def)
  ultimately show ?thesis
    by (simp add: wrapped_def wrapAxis_range)
qed


theorem wrap_closed_interval_witness:
  "(0::nat) \<in> set [0] \<and> (0::nat) < 1
   \<and> 1 \<le> length [\<lparr>position = make_float3 (- 1) 0 1, velocity = make_float3 (- 1) 0 0, color = 0\<rparr>]
   \<and> position (launch_updateParticles [0]
         [\<lparr>position = make_float3 (- 1) 0 1, velocity = make_float3 (- 1) 0 0, color = 0\<rparr>]
         [1] 1 (4 / 10000) 1 (1 / 10) (99 / 100) ! 0) = make_float3 1 0 1
   \<and> wrapAxis 1 = 1 \<and> wrapAxis (- 1) = - 1"
  using wrap_closed_interval [of 0 "[0]" 1
      "[\<lparr>position = make_float3 (- 1) 0 1, velocity = make_float3 (- 1) 0 0, color = 0\<rparr>]"
      "[1]" "4 / 10000" 1 "1 / 10" "99 / 100"]
  by (simp add: launch_updateParticles_def updateParticles_def forceLoop_def forceLoopBody_def
      wrapAxis_def)

text \<open>
  C5. For every \<open>\<delta> > 0\<close> the coordinate \<open>1 + \<delta>\<close> is wrapped to exactly \<open>-1\<close> (and
  not to \<open>-1 + \<delta>\<close>), a coordinate below \<open>-1\<close> is wrapped to exactly \<open>1\<close>, and the
  position a thread writes is this wrap of each of the three axes of the integrated
  position on its own.
\<close>

theorem wrap_teleport:
  "(0 < \<delta> \<longrightarrow> wrapAxis (1 + \<delta>) = - 1 \<and> wrapAxis (1 + \<delta>) \<noteq> - 1 + \<delta>)
   \<and> (c < - 1 \<longrightarrow> wrapAxis c = 1)
   \<and> (idx < numParticles \<and> idx < length particles \<longrightarrow>
        (let q = unwrappedPosition idx particles attractionMatrix numParticles deltaTime
                   numColors beta frictionFactor;
             p = position (updateParticles idx particles attractionMatrix numParticles
                   deltaTime numColors beta frictionFactor ! idx)
         in x p = wrapAxis (x q) \<and> y p = wrapAxis (y q) \<and> z p = wrapAxis (z q)))"
  by (simp add: wrapAxis_above wrapAxis_below updateParticles_slot wrapped_def Let_def)

theorem wrap_teleport_witness:
  "wrapAxis (1 + 1 / 2) = - 1 \<and> wrapAxis (1 + 1 / 2) \<noteq> - 1 + 1 / 2
   \<and> wrapAxis (- 2) = 1
   \<and> unwrappedPosition 0
        [\<lparr>position = make_float3 1 (- 1) 0, velocity = make_float3 1 (- 1) 0, color = 0\<rparr>]
        [1] 1 1 1 (1 / 2) 1 = make_float3 2 (- 2) 0
   \<and> position (updateParticles 0
        [\<lparr>position = make_float3 1 (- 1) 0, velocity = make_float3 1 (- 1) 0, color = 0\<rparr>]
        [1] 1 1 1 (1 / 2) 1 ! 0) = make_float3 (- 1) 1 0"
  using wrap_teleport [of "1 / 2" "- 2" 0 1
      "[\<lparr>position = make_float3 1 (- 1) 0, velocity = make_float3 1 (- 1) 0, color = 0\<rparr>]"
      "[1]" 1 1 "1 / 2" 1]
  by (simp add: unwrappedPosition_def newVelocity_def forceLoop_def forceLoopBody_def
      updateParticles_def wrapAxis_def)

text \<open>
  C4 as stated, with the half-open interval \<open>[-1, 1)\<close>, fails: a particle at \<open>x = -1\<close>
  moving in the negative direction is teleported to exactly \<open>x = 1\<close>.
\<close>

theorem wrap_half_open_counterexample:
  "x (position (launch_updateParticles [0]
        [\<lparr>position = make_float3 (- 1) 0 0, velocity = make_float3 (- 1) 0 0, color = 0\<rparr>]
        [1] 1 (4 / 10000) 1 (1 / 10) (99 / 100) ! 0)) = 1"
  by (simp add: launch_updateParticles_def updateParticles_def forceLoop_def forceLoopBody_def
      wrapAxis_def)

text \<open>
  C4, amended. After the wrap each of the three coordinates of the position a thread
  writes lies in the closed interval \<open>[-1, 1]\<close>, and it is below \<open>1\<close> exactly when the
  coordinate before the wrap was neither equal to \<open>1\<close> nor below \<open>-1\<close>.
\<close>

theorem wrap_range_exact:
  assumes "idx < numParticles" and "idx < length particles"
  shows "let q = unwrappedPosition idx particles attractionMatrix numParticles deltaTime
                   numColors beta frictionFactor;
             p = position (updateParticles idx particles attractionMatrix numParticles
                   deltaTime numColors beta frictionFactor ! idx)
         in (- 1 \<le> x p \<and> x p \<le> 1 \<and> (x p < 1 \<longleftrightarrow> \<not> (x q = 1 \<or> x q < - 1)))
          \<and> (- 1 \<le> y p \<and> y p \<le> 1 \<and> (y p < 1 \<longleftrightarrow> \<not> (y q = 1 \<or> y q < - 1)))
          \<and> (- 1 \<le> z p \<and> z p \<le> 1 \<and> (z p < 1 \<longleftrightarrow> \<not> (z q = 1 \<or> z q < - 1)))"
  using assms
  by (simp add: updateParticles_slot wrapped_def Let_def wrapAxis_range wrapAxis_lt_iff)

theorem wrap_range_exact_witness:
  "(0::nat) < 1
   \<and> 0 < length [\<lparr>position = make_float3 (- 1) 1 0, velocity = make_float3 (- 1) 0 0, color = 0\<rparr>]
   \<and> unwrappedPosition 0
        [\<lparr>position = make_float3 (- 1) 1 0, velocity = make_float3 (- 1) 0 0, color = 0\<rparr>]
        [1] 1 1 1 (1 / 2) 1 = make_float3 (- 2) 1 0
   \<and> position (updateParticles 0
        [\<lparr>position = make_float3 (- 1) 1 0, velocity = make_float3 (- 1) 0 0, color = 0\<rparr>]
        [1] 1 1 1 (1 / 2) 1 ! 0) = make_float3 1 1 0"
  using wrap_range_exact [of 0 1
      "[\<lparr>position = make_float3 (- 1) 1 0, velocity = make_float3 (- 1) 0 0, color = 0\<rparr>]"
      "[1]" 1 1 "1 / 2" 1]
  by (simp add: unwrappedPosition_def newVelocity_def forceLoop_def forceLoopBody_def
      updateParticles_def wrapAxis_def)

section \<open>The force accumulation\<close>


section \<open>Normalisation and division by zero\<close>

text \<open>
  C9 as stated fails in single precision. The vector \<open>(1 / 2 ^ 100, 0, 0)\<close> has the
  positive length \<open>1 / 2 ^ 100\<close>, but its square underflows to zero, so the length the
  code computes is zero, the guard of \<^verbatim>\<open>normalize\<close> is false and the vector is returned
  as it is: neither the zero vector nor the vector divided by its length.
\<close>

theorem normalize_underflow_counterexample:
  "length3 (make_float3 (1 / 2 ^ 100) 0 0) = 1 / 2 ^ 100
   \<and> length_f32 (make_float3_f32 (Fin (1 / 2 ^ 100)) (Fin 0) (Fin 0)) = Fin 0
   \<and> normalize_f32 (make_float3_f32 (Fin (1 / 2 ^ 100)) (Fin 0) (Fin 0)) =
       Inr (make_float3_f32 (Fin (1 / 2 ^ 100)) (Fin 0) (Fin 0))"
  using round32_underflow
  by (simp add: length3_axis length_f32_def normalize_f32_def Let_def)

text \<open>
  C9, amended. \<^verbatim>\<open>normalize\<close> returns its argument unchanged when the length it computes
  is not greater than zero; for every vector whose computed length is greater than
  zero that length is not zero and the result is the components divided by it, in
  single precision; the zero vector is returned as the zero vector; and no division
  evaluated by the force accumulation of a thread has the divisor zero, for every
  particle array, matrix and beta.
\<close>

theorem normalize_f32_guarded:
  "(\<not> flt (Fin 0) (length_f32 v) \<longrightarrow> normalize_f32 v = Inr v)
   \<and> (flt (Fin 0) (length_f32 v) \<longrightarrow>
        length_f32 v \<noteq> Fin 0
        \<and> (\<exists>qx qy qz. fdiv (x32 v) (length_f32 v) = Inr qx
              \<and> fdiv (y32 v) (length_f32 v) = Inr qy
              \<and> fdiv (z32 v) (length_f32 v) = Inr qz
              \<and> normalize_f32 v = Inr (make_float3_f32 qx qy qz)))
   \<and> normalize_f32 (make_float3_f32 (Fin 0) (Fin 0) (Fin 0)) =
       Inr (make_float3_f32 (Fin 0) (Fin 0) (Fin 0))
   \<and> (\<exists>force. forceLoop_f32 particles attractionMatrix numParticles numColors beta idx =
         Inr force)"
proof (intro conjI impI)
  assume "\<not> flt (Fin 0) (length_f32 v)"
  then show "normalize_f32 v = Inr v"
    by (simp add: normalize_f32_def Let_def)
next
  assume pos: "flt (Fin 0) (length_f32 v)"
  then show nz: "length_f32 v \<noteq> Fin 0"
    by (rule flt_zero_cases)
  obtain qx qy qz where q: "fdiv (x32 v) (length_f32 v) = Inr qx"
    "fdiv (y32 v) (length_f32 v) = Inr qy" "fdiv (z32 v) (length_f32 v) = Inr qz"
    using fdiv_ok [OF nz] by meson
  then have "normalize_f32 v = Inr (make_float3_f32 qx qy qz)"
    using pos by (simp add: normalize_f32_def and_then_def Let_def)
  then show "\<exists>qx qy qz. fdiv (x32 v) (length_f32 v) = Inr qx
              \<and> fdiv (y32 v) (length_f32 v) = Inr qy
              \<and> fdiv (z32 v) (length_f32 v) = Inr qz
              \<and> normalize_f32 v = Inr (make_float3_f32 qx qy qz)"
    using q by blast
next
  show "normalize_f32 (make_float3_f32 (Fin 0) (Fin 0) (Fin 0)) =
       Inr (make_float3_f32 (Fin 0) (Fin 0) (Fin 0))"
    by (simp add: normalize_f32_def length_f32_def Let_def)
next
  show "\<exists>force. forceLoop_f32 particles attractionMatrix numParticles numColors beta idx =
         Inr force"
    by (rule forceLoop_f32_ok)
qed

theorem normalize_f32_guarded_witness:
  "\<not> flt (Fin 0) (length_f32 (make_float3_f32 (Fin (1 / 2 ^ 100)) (Fin 0) (Fin 0)))
   \<and> normalize_f32 (make_float3_f32 (Fin (1 / 2 ^ 100)) (Fin 0) (Fin 0)) =
       Inr (make_float3_f32 (Fin (1 / 2 ^ 100)) (Fin 0) (Fin 0))
   \<and> flt (Fin 0) (length_f32 (make_float3_f32 (Fin (1 / 2)) (Fin 0) (Fin 0)))
   \<and> length_f32 (make_float3_f32 (Fin (1 / 2)) (Fin 0) (Fin 0)) = Fin (1 / 2)
   \<and> normalize_f32 (make_float3_f32 (Fin (1 / 2)) (Fin 0) (Fin 0)) =
       Inr (make_float3_f32 (Fin 1) (Fin 0) (Fin 0))
   \<and> forceLoop_f32
        [\<lparr>position32 = make_float3_f32 (Fin 0) (Fin 0) (Fin 0),
          velocity32 = make_float3_f32 (Fin 0) (Fin 0) (Fin 0), color32 = 0\<rparr>,
         \<lparr>position32 = make_float3_f32 (Fin (1 / 2)) (Fin 0) (Fin 0),
          velocity32 = make_float3_f32 (Fin 0) (Fin 0) (Fin 0), color32 = 0\<rparr>]
        [Fin 1] 2 1 (Fin (1 / 2)) 0 = Inr (make_float3_f32 (Fin 2) (Fin 0) (Fin 0))"
  using normalize_f32_guarded [of "make_float3_f32 (Fin (1 / 2 ^ 100)) (Fin 0) (Fin 0)"
      "[\<lparr>position32 = make_float3_f32 (Fin 0) (Fin 0) (Fin 0),
         velocity32 = make_float3_f32 (Fin 0) (Fin 0) (Fin 0), color32 = 0\<rparr>,
        \<lparr>position32 = make_float3_f32 (Fin (1 / 2)) (Fin 0) (Fin 0),
         velocity32 = make_float3_f32 (Fin 0) (Fin 0) (Fin 0), color32 = 0\<rparr>]"
      "[Fin 1]" 2 1 "Fin (1 / 2)" 0]
    normalize_f32_guarded [of "make_float3_f32 (Fin (1 / 2)) (Fin 0) (Fin 0)" "[]" "[]" 0 0 NaN 0]
    round32_underflow
  by (simp add: length_f32_def normalize_f32_def forceLoop_f32_def forceLoopBody_f32_def
      interact_f32_def calculateForce_f32_def readf_f32_def and_then_def fsub_def
      real_sqrt_divide numeral_2_eq_2 Let_def)

section \<open>Processing order\<close>

text \<open>
  C1 as stated fails: the kernel updates the array in place, so a thread that runs later
  reads the positions the earlier threads have already written. With two particles the
  forward order \<open>[0, 1]\<close> and the reverse order \<open>[1, 0]\<close> give different arrays.
\<close>

theorem inplace_order_counterexample:
  "launch_updateParticles (threadIds 1 2)
     [\<lparr>position = make_float3 0 0 0, velocity = make_float3 0 0 0, color = 0\<rparr>,
      \<lparr>position = make_float3 (1 / 4) 0 0, velocity = make_float3 0 0 0, color = 0\<rparr>]
     [1] 2 1 1 (1 / 2) 1 =
     [\<lparr>position = make_float3 (- (1 / 2)) 0 0, velocity = make_float3 (- (1 / 2)) 0 0, color = 0\<rparr>,
      \<lparr>position = make_float3 (- (3 / 4)) 0 0, velocity = make_float3 (- 1) 0 0, color = 0\<rparr>]
   \<and> launch_updateParticles (rev (threadIds 1 2))
     [\<lparr>position = make_float3 0 0 0, velocity = make_float3 0 0 0, color = 0\<rparr>,
      \<lparr>position = make_float3 (1 / 4) 0 0, velocity = make_float3 0 0 0, color = 0\<rparr>]
     [1] 2 1 1 (1 / 2) 1 =
     [\<lparr>position = make_float3 1 0 0, velocity = make_float3 1 0 0, color = 0\<rparr>,
      \<lparr>position = make_float3 (3 / 4) 0 0, velocity = make_float3 (1 / 2) 0 0, color = 0\<rparr>]"
  by (simp add: threadIds_def launch_Cons updateParticles_def forceLoop_def forceLoopBody_def
      interact_def length3_axis normalize3_def calculateForce_def readf_def wrapAxis_def
      numeral_2_eq_2 Let_def)

text \<open>
  C1, amended. For every particle array, attraction matrix and parameters, and every
  order of distinct thread indices, the slot of the \<open>k\<close>-th thread holds after the step
  the kernel's update of that particle computed from the array as the \<open>k\<close> threads
  before it left it: post-step state for the particles processed earlier, pre-step
  state for the others.
\<close>

theorem inplace_schedule_slot:
  assumes "distinct schedule" and "k < length schedule"
  shows "launch_updateParticles schedule particles attractionMatrix numParticles deltaTime
           numColors beta frictionFactor ! (schedule ! k) =
         updateParticles (schedule ! k)
           (launch_updateParticles (take k schedule) particles attractionMatrix numParticles
              deltaTime numColors beta frictionFactor)
           attractionMatrix numParticles deltaTime numColors beta frictionFactor ! (schedule ! k)"
proof -
  have split: "schedule = take k schedule @ (schedule ! k) # drop (Suc k) schedule"
    using assms(2) by (simp add: id_take_nth_drop)
  have "schedule ! k \<notin> set (drop (Suc k) schedule)"
    using assms split by (metis distinct_append distinct.simps(2))
  then show ?thesis
    by (subst split) (simp add: launch_append launch_Cons launch_untouched)
qed

theorem inplace_schedule_slot_witness:
  "distinct [1, 0 :: nat] \<and> (1::nat) < length [1, 0 :: nat]
   \<and> launch_updateParticles (take 1 [1, 0])
        [\<lparr>position = make_float3 0 0 0, velocity = make_float3 0 0 0, color = 0\<rparr>,
         \<lparr>position = make_float3 (1 / 4) 0 0, velocity = make_float3 0 0 0, color = 0\<rparr>]
        [1] 2 1 1 (1 / 2) 1 =
        [\<lparr>position = make_float3 0 0 0, velocity = make_float3 0 0 0, color = 0\<rparr>,
         \<lparr>position = make_float3 (3 / 4) 0 0, velocity = make_float3 (1 / 2) 0 0, color = 0\<rparr>]
   \<and> launch_updateParticles [1, 0]
        [\<lparr>position = make_float3 0 0 0, velocity = make_float3 0 0 0, color = 0\<rparr>,
         \<lparr>position = make_float3 (1 / 4) 0 0, velocity = make_float3 0 0 0, color = 0\<rparr>]
        [1] 2 1 1 (1 / 2) 1 ! ([1, 0] ! 1) =
        \<lparr>position = make_float3 1 0 0, velocity = make_float3 1 0 0, color = 0\<rparr>"
  using inplace_schedule_slot [of "[1, 0]" 1
      "[\<lparr>position = make_float3 0 0 0, velocity = make_float3 0 0 0, color = 0\<rparr>,
        \<lparr>position = make_float3 (1 / 4) 0 0, velocity = make_float3 0 0 0, color = 0\<rparr>]"
      "[1]" 2 1 1 "1 / 2" 1]
  by (simp add: launch_Cons updateParticles_def forceLoop_def forceLoopBody_def
      interact_def length3_axis normalize3_def calculateForce_def readf_def wrapAxis_def
      numeral_2_eq_2 Let_def)

section \<open>Initialisation and the attraction matrix\<close>

text \<open>
  C7. The loops of \<^verbatim>\<open>main\<close> set the entry \<open>(i, j)\<close> of the attraction matrix, stored at
  \<open>i * numColors + j\<close>, to \<open>1\<close> when \<open>i = j\<close> and to \<open>-1\<close> otherwise, for all color indices
  below \<open>numColors\<close>; and the matrix on the device is still the one the loops built after
  any number of frames of the main loop.
\<close>

theorem attraction_matrix_entries:
  assumes "length mem = numColors * numColors" and "i < numColors" and "j < numColors"
  shows "fillAttractionMatrix numColors mem ! (i * numColors + j) = (if i = j then 1 else - 1)
       \<and> d_attractionMatrix (main_loop schedules (main_setup uniform seed pmem mmem)) =
           fillAttractionMatrix main_numColors mmem"
proof -
  have "Suc i * numColors \<le> numColors * numColors"
    using assms(2) by (intro mult_le_mono1) simp
  then have "i * numColors + j < length mem"
    using assms by simp
  then have "fillAttractionMatrix numColors mem ! (i * numColors + j) = (if i = j then 1 else - 1)"
    unfolding fillAttractionMatrix_def
    using fill_rows_nth [of i numColors j numColors mem "\<lambda>i j. if i = j then 1 else - 1"] assms
    by simp
  then show ?thesis
    by (simp add: main_loop_matrix main_setup_def)
qed

theorem attraction_matrix_entries_witness:
  "length [0, 0, 0, 0::real] = 2 * 2 \<and> (0::nat) < 2 \<and> (1::nat) < 2
   \<and> fillAttractionMatrix 2 [0, 0, 0, 0] = [1, - 1, - 1, 1]
   \<and> fillAttractionMatrix 2 [0, 0, 0, 0] ! (0 * 2 + 1) = - 1
   \<and> d_attractionMatrix (main_loop [[0], [0]] (main_setup (\<lambda>s i k. 1) 0 [] [])) =
        fillAttractionMatrix main_numColors []"
  using attraction_matrix_entries [of "[0, 0, 0, 0]" 2 0 1 "[[0], [0]]" "\<lambda>s i k. 1" 0 "[]" "[]"]
  by (simp add: fillAttractionMatrix_def numeral_2_eq_2)

text \<open>
  C8. After the launch of \<^verbatim>\<open>initParticles\<close> on a grid that covers the particle count, every
  particle index below the count has the zero velocity, the color
  \<open>index mod numColors\<close> (a color index below \<open>numColors\<close>), and the position
  \<open>2 u - 1\<close> in each axis for the three draws \<open>u\<close> of the stream of (seed, index), which
  lies in \<open>[-1, 1]\<close> when the draws lie in \<open>[0, 1]\<close>. The colors are balanced: each color
  is given to \<open>numParticles div numColors\<close> particles, and to one more for the first
  \<open>numParticles mod numColors\<close> colors.
\<close>

theorem initParticles_result:
  assumes "numParticles \<le> gridDim * blockDim" and "numParticles \<le> length particles"
    and "0 < numColors"
  shows "(\<forall>idx < numParticles.
            let p = launch_initParticles (threadIds gridDim blockDim) uniform numParticles
                      numColors particles seed ! idx
            in velocity p = make_float3 0 0 0
             \<and> color p = int (idx mod numColors)
             \<and> 0 \<le> color p \<and> color p < int numColors
             \<and> position p = make_float3 (uniform seed idx 0 * 2 - 1) (uniform seed idx 1 * 2 - 1)
                               (uniform seed idx 2 * 2 - 1)
             \<and> ((\<forall>k < 3. 0 \<le> uniform seed idx k \<and> uniform seed idx k \<le> 1) \<longrightarrow>
                  - 1 \<le> x (position p) \<and> x (position p) \<le> 1
                \<and> - 1 \<le> y (position p) \<and> y (position p) \<le> 1
                \<and> - 1 \<le> z (position p) \<and> z (position p) \<le> 1))
       \<and> (\<forall>c < numColors.
            length (filter (\<lambda>p. color p = int c)
              (take numParticles (launch_initParticles (threadIds gridDim blockDim) uniform
                 numParticles numColors particles seed))) =
            numParticles div numColors + (if c < numParticles mod numColors then 1 else 0))"
proof -
  have slot: "launch_initParticles (threadIds gridDim blockDim) uniform numParticles
                numColors particles seed ! idx = initialParticle uniform numColors seed idx"
    if "idx < numParticles" for idx
    using that assms(1,2) by (simp add: launch_init_slot threadIds_upt)
  have first: "\<forall>idx < numParticles.
            let p = launch_initParticles (threadIds gridDim blockDim) uniform numParticles
                      numColors particles seed ! idx
            in velocity p = make_float3 0 0 0
             \<and> color p = int (idx mod numColors)
             \<and> 0 \<le> color p \<and> color p < int numColors
             \<and> position p = make_float3 (uniform seed idx 0 * 2 - 1) (uniform seed idx 1 * 2 - 1)
                               (uniform seed idx 2 * 2 - 1)
             \<and> ((\<forall>k < 3. 0 \<le> uniform seed idx k \<and> uniform seed idx k \<le> 1) \<longrightarrow>
                  - 1 \<le> x (position p) \<and> x (position p) \<le> 1
                \<and> - 1 \<le> y (position p) \<and> y (position p) \<le> 1
                \<and> - 1 \<le> z (position p) \<and> z (position p) \<le> 1)"
  proof (intro allI impI)
    fix idx assume lt: "idx < numParticles"
    have three: "(0::nat) < 3" "(1::nat) < 3" "(2::nat) < 3" by simp_all
    show "let p = launch_initParticles (threadIds gridDim blockDim) uniform numParticles
                      numColors particles seed ! idx
            in velocity p = make_float3 0 0 0
             \<and> color p = int (idx mod numColors)
             \<and> 0 \<le> color p \<and> color p < int numColors
             \<and> position p = make_float3 (uniform seed idx 0 * 2 - 1) (uniform seed idx 1 * 2 - 1)
                               (uniform seed idx 2 * 2 - 1)
             \<and> ((\<forall>k < 3. 0 \<le> uniform seed idx k \<and> uniform seed idx k \<le> 1) \<longrightarrow>
                  - 1 \<le> x (position p) \<and> x (position p) \<le> 1
                \<and> - 1 \<le> y (position p) \<and> y (position p) \<le> 1
                \<and> - 1 \<le> z (position p) \<and> z (position p) \<le> 1)"
      using assms(3) three by (auto simp add: slot [OF lt] initialParticle_def Let_def)
  qed
  have second: "\<forall>c < numColors.
            length (filter (\<lambda>p. color p = int c)
              (take numParticles (launch_initParticles (threadIds gridDim blockDim) uniform
                 numParticles numColors particles seed))) =
            numParticles div numColors + (if c < numParticles mod numColors then 1 else 0)"
  proof (intro allI impI)
    fix c assume "c < numColors"
    have "filter (\<lambda>p. color p = int c) (map (initialParticle uniform numColors seed) [0..<numParticles])
          = map (initialParticle uniform numColors seed) (filter (\<lambda>i. i mod numColors = c) [0..<numParticles])"
      by (simp add: filter_map comp_def initialParticle_def)
    then show "length (filter (\<lambda>p. color p = int c)
              (take numParticles (launch_initParticles (threadIds gridDim blockDim) uniform
                 numParticles numColors particles seed))) =
            numParticles div numColors + (if c < numParticles mod numColors then 1 else 0)"
      using round_robin_count [OF assms(3) \<open>c < numColors\<close>, of numParticles]
      by (simp only: take_launch_init [OF assms(1,2)] length_map)
  qed
  from first second show ?thesis by (rule conjI)
qed


theorem initParticles_result_witness:
  "(3::nat) \<le> 1 * 4
   \<and> 3 \<le> length (replicate 3 \<lparr>position = make_float3 9 9 9, velocity = make_float3 9 9 9, color = 9\<rparr>)
   \<and> (0::nat) < 2
   \<and> launch_initParticles (threadIds 1 4) (\<lambda>s i k. real k / 2) 3 2
        (replicate 3 \<lparr>position = make_float3 9 9 9, velocity = make_float3 9 9 9, color = 9\<rparr>) 7 =
      [\<lparr>position = make_float3 (- 1) 0 1, velocity = make_float3 0 0 0, color = 0\<rparr>,
       \<lparr>position = make_float3 (- 1) 0 1, velocity = make_float3 0 0 0, color = 1\<rparr>,
       \<lparr>position = make_float3 (- 1) 0 1, velocity = make_float3 0 0 0, color = 0\<rparr>]
   \<and> length (filter (\<lambda>p. color p = int 0)
        (take 3 (launch_initParticles (threadIds 1 4) (\<lambda>s i k. real k / 2) 3 2
          (replicate 3 \<lparr>position = make_float3 9 9 9, velocity = make_float3 9 9 9, color = 9\<rparr>) 7)))
       = 2"
  using initParticles_result [of 3 1 4
      "replicate 3 \<lparr>position = make_float3 9 9 9, velocity = make_float3 9 9 9, color = 9\<rparr>"
      2 "\<lambda>s i k. real k / 2" 7]
  by (simp add: launch_initParticles_def threadIds_upt upt_conv_Cons initParticles_def
      numeral_3_eq_3)

end
